theory Spec2Isabelle
  imports Main "HOL-Library.Word" "HOL-Library.Countable"
begin

section \<open>The credit metering subsystem of the voice-notes application\<close>

text \<open>
  The development embeds the four JavaScript modules of the credit system
  (\<^verbatim>\<open>creditSecurity.js\<close>, \<^verbatim>\<open>creditStorage.js\<close>, \<^verbatim>\<open>creditManager.js\<close>,
  \<^verbatim>\<open>creditIntegration.js\<close>) as HOL functions with explicit state passing.

  Modelling conventions.
  \<^item> Credits, timestamps and costs are JavaScript numbers that hold integers; they are
    modelled as \<open>int\<close>. Strings are ASCII \<open>string\<close>s.
  \<^item> An \<^verbatim>\<open>async\<close> function that rejects and a function that throws are both a result
    \<open>Inl e\<close> with \<open>e\<close> of type \<open>exn\<close>; a normal return is \<open>Inr v\<close>.
  \<^item> The browser is a parameter: the record \<open>platform\<close> holds the Web Crypto primitives,
    \<^verbatim>\<open>JSON.stringify\<close>/\<^verbatim>\<open>JSON.parse\<close> on balance records and the environment signals read by
    the fingerprint. Web Crypto is assumed to be available: digest, key derivation and
    encryption always resolve; only decryption may reject.
  \<^item> The outcome of every IndexedDB request, the clock and the random nonce are
    parameters of the operation that issues them.
\<close>

subsection \<open>JavaScript strings and numbers\<close>

definition digitChar :: "nat \<Rightarrow> char" where
  "digitChar d = ''0123456789abcdef'' ! d"

text \<open>\<^verbatim>\<open>n.toString(16)\<close> and \<^verbatim>\<open>n.toString()\<close> on a non-negative integer.\<close>

fun toString16 :: "nat \<Rightarrow> string" where
  "toString16 n =
     (if n < 16 then [digitChar n] else toString16 (n div 16) @ [digitChar (n mod 16)])"

fun toString10 :: "nat \<Rightarrow> string" where
  "toString10 n =
     (if n < 10 then [digitChar n] else toString10 (n div 10) @ [digitChar (n mod 10)])"

declare toString16.simps [simp del]
declare toString10.simps [simp del]

text \<open>A number rendered by a template literal, \<^verbatim>\<open>`${n}`\<close>.\<close>

definition Number_toString :: "int \<Rightarrow> string" where
  "Number_toString n = (if n < 0 then ''-'' @ toString10 (nat (- n)) else toString10 (nat n))"

definition padStart :: "nat \<Rightarrow> char \<Rightarrow> string \<Rightarrow> string" where
  "padStart n c s = replicate (n - length s) c @ s"

definition toUpperChar :: "char \<Rightarrow> char" where
  "toUpperChar c =
     (let n = (of_char c :: nat) in if 97 \<le> n \<and> n \<le> 122 then char_of (n - 32) else c)"

definition toUpperCase :: "string \<Rightarrow> string" where
  "toUpperCase s = map toUpperChar s"

text \<open>\<^verbatim>\<open>xs.join(sep)\<close>.\<close>

fun join :: "string \<Rightarrow> string list \<Rightarrow> string" where
  "join sep [] = []"
| "join sep [x] = x"
| "join sep (x # y # ys) = x @ sep @ join sep (y # ys)"

text \<open>\<^verbatim>\<open>s.includes(t)\<close>.\<close>

fun startsWith :: "string \<Rightarrow> string \<Rightarrow> bool" where
  "startsWith s [] = True"
| "startsWith [] (c # t) = False"
| "startsWith (a # s) (c # t) = (a = c \<and> startsWith s t)"

fun String_includes :: "string \<Rightarrow> string \<Rightarrow> bool" where
  "String_includes [] t = (t = [])"
| "String_includes (a # s) t = (startsWith (a # s) t \<or> String_includes s t)"

subsection \<open>Exceptions\<close>

text \<open>
  \<open>Error m\<close> is \<^verbatim>\<open>new Error(m)\<close>; \<open>TypeError\<close> and \<open>RangeError\<close> are the engine's own
  errors (message in V8's wording); \<open>Thrown\<close> is a thrown value that has no string
  \<^verbatim>\<open>message\<close> property.
\<close>

datatype exn = Error string | TypeError string | RangeError string | Thrown

fun message :: "exn \<Rightarrow> string option" where
  "message (Error m) = Some m"
| "message (TypeError m) = Some m"
| "message (RangeError m) = Some m"
| "message Thrown = None"

subsection \<open>Balance records and the platform\<close>

type_synonym bytes = "8 word list"
type_synonym cryptoKey = "8 word list"

text \<open>
  The plaintext balance record. A field is \<open>None\<close> where the JavaScript object has no such
  property (\<^verbatim>\<open>undefined\<close>): the record built by \<^verbatim>\<open>saveCreditBalance\<close> has no
  \<^verbatim>\<open>integrityHash\<close> until the hash is attached, and a decrypted object may lack any field.
\<close>

record creditData =
  cd_id :: "string option"
  cd_balance :: "int option"
  cd_deviceFingerprint :: "string option"
  cd_timestamp :: "int option"
  cd_lastModified :: "int option"
  cd_integrityHash :: "string option"

text \<open>
  What \<^verbatim>\<open>JSON.parse\<close> may return, as far as the callers look at it: \<^verbatim>\<open>null\<close>, another
  falsy value (\<^verbatim>\<open>false\<close>, \<^verbatim>\<open>0\<close>, \<^verbatim>\<open>""\<close>), or a truthy value seen through the
  properties the code reads (a truthy primitive has none of them).
\<close>

datatype jsonValue = JsonNull | JsonFalsy | JsonObject creditData

record platform =
  screen_width :: int
  screen_height :: int
  screen_colorDepth :: int
  timeZone :: string
  navigator_language :: string
  navigator_platform :: string
  navigator_userAgent :: string
  canvas_toDataURL :: "string option"
  sha256 :: "string \<Rightarrow> bytes"
  pbkdf2_sha256 :: "string \<Rightarrow> string \<Rightarrow> nat \<Rightarrow> cryptoKey"
  aes_gcm_encrypt :: "cryptoKey \<Rightarrow> bytes \<Rightarrow> string \<Rightarrow> bytes"
  aes_gcm_decrypt :: "cryptoKey \<Rightarrow> bytes \<Rightarrow> bytes \<Rightarrow> string option"
  JSON_stringify :: "creditData \<Rightarrow> string"
  JSON_parse :: "string \<Rightarrow> jsonValue option"
  maxTypedArrayLength :: int

text \<open>
  \<open>canvas_toDataURL\<close> is \<open>None\<close> when the canvas code throws; \<open>aes_gcm_decrypt\<close> is
  \<open>None\<close> when \<^verbatim>\<open>crypto.subtle.decrypt\<close> rejects and otherwise the decoded plaintext;
  \<open>JSON_parse\<close> is \<open>None\<close> on a \<^verbatim>\<open>SyntaxError\<close>.
\<close>

subsection \<open>Crypto provider (\<^verbatim>\<open>creditSecurity.js\<close>)\<close>

record CreditSecurity =
  sec_cryptoKey :: "cryptoKey option"
  sec_deviceFingerprint :: "string option"

definition new_CreditSecurity :: CreditSecurity where
  "new_CreditSecurity = \<lparr>sec_cryptoKey = None, sec_deviceFingerprint = None\<rparr>"

definition simpleHash :: "platform \<Rightarrow> string \<Rightarrow> string" where
  "simpleHash P text =
     concat (map (\<lambda>b. padStart 2 CHR ''0'' (toString16 (unat b))) (sha256 P text))"

definition fingerprintComponents :: "platform \<Rightarrow> string list" where
  "fingerprintComponents P =
     [''screen:'' @ Number_toString (screen_width P) @ ''x'' @ Number_toString (screen_height P)
        @ ''x'' @ Number_toString (screen_colorDepth P),
      ''tz:'' @ timeZone P,
      ''lang:'' @ navigator_language P,
      ''platform:'' @ navigator_platform P,
      ''ua:'' @ take 8 (simpleHash P (navigator_userAgent P)),
      (case canvas_toDataURL P of
         Some canvasData \<Rightarrow> ''canvas:'' @ take 8 (simpleHash P canvasData)
       | None \<Rightarrow> ''canvas:unavailable'')]"

text \<open>The cached fingerprint is returned when it is truthy (a non-empty string).\<close>

definition generateDeviceFingerprint :: "platform \<Rightarrow> CreditSecurity \<Rightarrow> string \<times> CreditSecurity" where
  "generateDeviceFingerprint P sec =
     (case sec_deviceFingerprint sec of
        Some fp \<Rightarrow>
          if fp \<noteq> [] then (fp, sec)
          else (let fp' = simpleHash P (join ''|'' (fingerprintComponents P))
                in (fp', sec\<lparr>sec_deviceFingerprint := Some fp'\<rparr>))
      | None \<Rightarrow>
          (let fp' = simpleHash P (join ''|'' (fingerprintComponents P))
           in (fp', sec\<lparr>sec_deviceFingerprint := Some fp'\<rparr>)))"

definition initializeCryptoKey :: "platform \<Rightarrow> CreditSecurity \<Rightarrow> cryptoKey \<times> CreditSecurity" where
  "initializeCryptoKey P sec =
     (case sec_cryptoKey sec of
        Some k \<Rightarrow> (k, sec)
      | None \<Rightarrow>
          (let (fingerprint, sec1) = generateDeviceFingerprint P sec;
               k = pbkdf2_sha256 P (take 32 fingerprint) ''VoiceNotes-Credits-Salt'' 100000
           in (k, sec1\<lparr>sec_cryptoKey := Some k\<rparr>)))"

text \<open>
  The argument of \<^verbatim>\<open>new Uint8Array(x)\<close>: \<^verbatim>\<open>undefined\<close>, \<^verbatim>\<open>null\<close>, a number (a length)
  or an array of numbers. A negative or too large length throws a \<^verbatim>\<open>RangeError\<close>; array
  elements are reduced modulo 256.
\<close>

datatype typedArraySource = Undefined | Null | Length int | Elements "int list"

record encryptedData =
  ed_encrypted :: typedArraySource
  ed_iv :: typedArraySource

definition new_Uint8Array :: "platform \<Rightarrow> typedArraySource \<Rightarrow> exn + bytes" where
  "new_Uint8Array P x =
     (case x of
        Undefined \<Rightarrow> Inr []
      | Null \<Rightarrow> Inr []
      | Length n \<Rightarrow>
          if n < 0 \<or> maxTypedArrayLength P < n
          then Inl (RangeError (''Invalid typed array length: '' @ Number_toString n))
          else Inr (replicate (nat n) 0)
      | Elements xs \<Rightarrow> Inr (map word_of_int xs))"

text \<open>\<^verbatim>\<open>Array.from(new Uint8Array(buffer))\<close>.\<close>

definition Array_from :: "bytes \<Rightarrow> typedArraySource" where
  "Array_from bs = Elements (map uint bs)"

text \<open>\<open>nonce\<close> is the value of \<^verbatim>\<open>crypto.getRandomValues(new Uint8Array(12))\<close>.\<close>

definition encryptData :: "platform \<Rightarrow> bytes \<Rightarrow> CreditSecurity \<Rightarrow> creditData \<Rightarrow> encryptedData \<times> CreditSecurity" where
  "encryptData P nonce sec d =
     (let (key, sec1) = initializeCryptoKey P sec;
          encrypted = aes_gcm_encrypt P key nonce (JSON_stringify P d)
      in (\<lparr>ed_encrypted = Array_from encrypted, ed_iv = Array_from nonce\<rparr>, sec1))"

text \<open>
  \<^verbatim>\<open>decryptData(encryptedData)\<close>; the argument is \<open>None\<close> when it is \<^verbatim>\<open>undefined\<close> or
  \<^verbatim>\<open>null\<close>. Key set-up and the two typed-array constructions precede the \<^verbatim>\<open>try\<close>
  block; decryption and parsing are inside it, and the handler returns \<^verbatim>\<open>null\<close>.
\<close>

definition decryptData :: "platform \<Rightarrow> CreditSecurity \<Rightarrow> encryptedData option \<Rightarrow> (exn + jsonValue) \<times> CreditSecurity" where
  "decryptData P sec arg =
     (let (key, sec1) = initializeCryptoKey P sec in
      case arg of
        None \<Rightarrow> (Inl (TypeError ''Cannot read properties of undefined (reading 'iv')''), sec1)
      | Some ed \<Rightarrow>
          (case new_Uint8Array P (ed_iv ed) of
             Inl e \<Rightarrow> (Inl e, sec1)
           | Inr iv \<Rightarrow>
               (case new_Uint8Array P (ed_encrypted ed) of
                  Inl e \<Rightarrow> (Inl e, sec1)
                | Inr encrypted \<Rightarrow>
                    (case aes_gcm_decrypt P key iv encrypted of
                       None \<Rightarrow> (Inr JsonNull, sec1)
                     | Some decryptedText \<Rightarrow>
                         (case JSON_parse P decryptedText of
                            None \<Rightarrow> (Inr JsonNull, sec1)
                          | Some v \<Rightarrow> (Inr v, sec1))))))"

text \<open>
  \<^verbatim>\<open>generateBackupCodes(count)\<close>. \<open>rng i\<close> is the value of the \<open>i\<close>-th call of
  \<^verbatim>\<open>crypto.getRandomValues(new Uint32Array(3))\<close>.
\<close>

type_synonym uint32x3 = "32 word \<times> 32 word \<times> 32 word"

definition reduce_hex :: "uint32x3 \<Rightarrow> string" where
  "reduce_hex r =
     (case r of (a, b, c) \<Rightarrow>
        foldl (\<lambda>acc val. acc @ padStart 8 CHR ''0'' (toString16 (unat val))) [] [a, b, c])"

definition backupCode :: "uint32x3 \<Rightarrow> string" where
  "backupCode r = toUpperCase (take 16 (reduce_hex r))"

function generateBackupCodes_loop :: "(nat \<Rightarrow> uint32x3) \<Rightarrow> int \<Rightarrow> int \<Rightarrow> string list \<Rightarrow> string list" where
  "generateBackupCodes_loop rng count i codes =
     (if i < count
      then generateBackupCodes_loop rng count (i + 1) (codes @ [backupCode (rng (nat i))])
      else codes)"
  by pat_completeness auto
termination
  by (relation "measure (\<lambda>(rng, count, i, codes). nat (count - i))") auto

declare generateBackupCodes_loop.simps [simp del]

definition generateBackupCodes :: "(nat \<Rightarrow> uint32x3) \<Rightarrow> int \<Rightarrow> string list" where
  "generateBackupCodes rng count = generateBackupCodes_loop rng count 0 []"

text \<open>\<^verbatim>\<open>/^[A-F0-9]{16}$/.test(code.toUpperCase())\<close>.\<close>

definition matches_backup_pattern :: "string \<Rightarrow> bool" where
  "matches_backup_pattern s = (length s = 16 \<and> list_all (\<lambda>c. c \<in> set ''ABCDEF0123456789'') s)"

definition isValidBackupCode :: "string \<Rightarrow> bool" where
  "isValidBackupCode code = matches_backup_pattern (toUpperCase code)"

text \<open>
  \<^verbatim>\<open>JSON.stringify({balance, deviceFingerprint, timestamp})\<close>: a property whose value is
  \<^verbatim>\<open>undefined\<close> is left out. The fingerprint is a hexadecimal digest, which needs no
  escaping inside the quotes.
\<close>

definition JSON_member :: "string \<Rightarrow> string option \<Rightarrow> string list" where
  "JSON_member k v = (case v of None \<Rightarrow> [] | Some text \<Rightarrow> [''\"'' @ k @ ''\":'' @ text])"

definition JSON_stringify_integrity :: "int option \<Rightarrow> string \<Rightarrow> int option \<Rightarrow> string" where
  "JSON_stringify_integrity b fp t =
     ''{'' @ join '','' (JSON_member ''balance'' (map_option Number_toString b)
                       @ JSON_member ''deviceFingerprint'' (Some (''\"'' @ fp @ ''\"''))
                       @ JSON_member ''timestamp'' (map_option Number_toString t)) @ ''}''"

definition createIntegrityHash :: "platform \<Rightarrow> CreditSecurity \<Rightarrow> creditData \<Rightarrow> string \<times> CreditSecurity" where
  "createIntegrityHash P sec d =
     (let (fp, sec1) = generateDeviceFingerprint P sec;
          dataString = JSON_stringify_integrity (cd_balance d) fp (cd_timestamp d)
      in (simpleHash P dataString, sec1))"

definition verifyIntegrity :: "platform \<Rightarrow> CreditSecurity \<Rightarrow> creditData \<Rightarrow> string option \<Rightarrow> bool \<times> CreditSecurity" where
  "verifyIntegrity P sec d expectedHash =
     (let (currentHash, sec1) = createIntegrityHash P sec d
      in (expectedHash = Some currentHash, sec1))"

subsection \<open>Ledger store (\<^verbatim>\<open>creditStorage.js\<close>)\<close>

text \<open>
  A promise resolves, rejects or never settles. Most asynchronous functions of the
  repository always settle and are given a result \<open>exn + 'a\<close>; the ones that can stay
  pending return a \<open>promise\<close>.
\<close>

datatype 'a promise = Resolves 'a | Rejects exn | NeverSettles

text \<open>The record kept in the \<^verbatim>\<open>credits\<close> object store under the key \<^verbatim>\<open>'main'\<close>.\<close>

record encryptedCreditRecord =
  ecr_id :: string
  ecr_data :: "encryptedData option"
  ecr_deviceFingerprint :: "string option"
  ecr_timestamp :: int

text \<open>
  The metadata of a transaction: the caller's entries, over which \<^verbatim>\<open>previousBalance\<close> and
  \<^verbatim>\<open>newBalance\<close> are spread by the Credit Manager.
\<close>

record metadata =
  md_entries :: "(string \<times> string) list"
  md_previousBalance :: int
  md_newBalance :: int

record transaction_record =
  tx_id :: nat
  tx_type :: string
  tx_amount :: int
  tx_operation :: string
  tx_metadata :: metadata
  tx_timestamp :: int
  tx_deviceFingerprint :: string

text \<open>
  A record of the \<^verbatim>\<open>backupCodes\<close> store without its key: the store's key path is the
  \<^verbatim>\<open>code\<close> property, so the store is a map from the code to the rest of the record.
\<close>

record backupCode_record =
  bc_created :: int
  bc_used :: bool
  bc_usedAt :: "int option"

text \<open>
  The storage object with the database behind it: \<open>st_db\<close> says whether \<^verbatim>\<open>this.db\<close> is
  set; the four object stores follow. \<open>st_nextKey\<close> is the key generator of the
  \<^verbatim>\<open>transactions\<close> store (\<^verbatim>\<open>autoIncrement\<close>).
\<close>

record CreditStorage =
  st_db :: bool
  st_security :: CreditSecurity
  st_credits :: "encryptedCreditRecord option"
  st_transactions :: "transaction_record list"
  st_nextKey :: nat
  st_creditSettings :: "string \<rightharpoonup> string"
  st_backupCodes :: "string \<rightharpoonup> backupCode_record"

definition new_CreditStorage :: CreditStorage where
  "new_CreditStorage =
     \<lparr>st_db = False, st_security = new_CreditSecurity, st_credits = None,
      st_transactions = [], st_nextKey = 1, st_creditSettings = Map.empty,
      st_backupCodes = Map.empty\<rparr>"

definition notInitialized :: exn where
  "notInitialized = Error ''Database not initialized''"

text \<open>\<^verbatim>\<open>init()\<close>; \<open>open_ok\<close> is the outcome of \<^verbatim>\<open>indexedDB.open\<close>.\<close>

definition init :: "bool \<Rightarrow> CreditStorage \<Rightarrow> (exn + unit) \<times> CreditStorage" where
  "init open_ok st =
     (if open_ok then (Inr (), st\<lparr>st_db := True\<rparr>)
      else (Inl (Error ''Failed to open credits database''), st))"

text \<open>
  \<^verbatim>\<open>saveCreditBalance(balance, deviceFingerprint)\<close>. \<open>now\<close> is \<^verbatim>\<open>Date.now()\<close>,
  \<open>nonce\<close> the random nonce of the encryption, \<open>put_ok\<close> the outcome of the
  \<^verbatim>\<open>put\<close> request.
\<close>

definition saveCreditBalance ::
  "platform \<Rightarrow> int \<Rightarrow> bytes \<Rightarrow> bool \<Rightarrow> CreditStorage \<Rightarrow> int \<Rightarrow> string option
     \<Rightarrow> (exn + unit) \<times> CreditStorage" where
  "saveCreditBalance P now nonce put_ok st balance deviceFingerprint =
     (let timestamp = now;
          creditData = \<lparr>cd_id = Some ''main'', cd_balance = Some balance,
                        cd_deviceFingerprint = deviceFingerprint, cd_timestamp = Some timestamp,
                        cd_lastModified = Some timestamp, cd_integrityHash = None\<rparr>;
          (integrityHash, sec1) = createIntegrityHash P (st_security st) creditData;
          creditData' = creditData\<lparr>cd_integrityHash := Some integrityHash\<rparr>;
          (encryptedData, sec2) = encryptData P nonce sec1 creditData';
          encryptedCreditRecord = \<lparr>ecr_id = ''main'', ecr_data = Some encryptedData,
                                   ecr_deviceFingerprint = deviceFingerprint,
                                   ecr_timestamp = timestamp\<rparr>;
          st1 = st\<lparr>st_security := sec2\<rparr>
      in if \<not> st_db st1 then (Inl notInitialized, st1)
         else if put_ok then (Inr (), st1\<lparr>st_credits := Some encryptedCreditRecord\<rparr>)
         else (Inl (Error ''Failed to save credit balance''), st1))"

text \<open>
  \<^verbatim>\<open>getCreditBalance()\<close>. The executor of its promise is an \<^verbatim>\<open>async\<close> function, so the
  exception of \<^verbatim>\<open>getStore\<close> on an unopened database is lost and the promise never
  settles. \<open>get_ok\<close> is the outcome of the \<^verbatim>\<open>get\<close> request. The result \<open>None\<close> is
  \<^verbatim>\<open>null\<close>.
\<close>

definition messageText :: "exn \<Rightarrow> string" where
  "messageText e = (case message e of Some m \<Rightarrow> m | None \<Rightarrow> ''undefined'')"

definition getCreditBalance ::
  "platform \<Rightarrow> bool \<Rightarrow> CreditStorage \<Rightarrow> creditData option promise \<times> CreditStorage" where
  "getCreditBalance P get_ok st =
     (if \<not> st_db st then (NeverSettles, st)
      else if \<not> get_ok then (Rejects (Error ''Failed to fetch credit balance''), st)
      else
        (case st_credits st of
           None \<Rightarrow> (Resolves None, st)
         | Some result \<Rightarrow>
             (case decryptData P (st_security st) (ecr_data result) of
                (Inl error, sec1) \<Rightarrow>
                  (Rejects (Error (''Failed to decrypt credit balance: '' @ messageText error)),
                   st\<lparr>st_security := sec1\<rparr>)
              | (Inr JsonNull, sec1) \<Rightarrow>
                  (Rejects (Error ''Failed to decrypt credit data''), st\<lparr>st_security := sec1\<rparr>)
              | (Inr JsonFalsy, sec1) \<Rightarrow>
                  (Rejects (Error ''Failed to decrypt credit data''), st\<lparr>st_security := sec1\<rparr>)
              | (Inr (JsonObject decryptedData), sec1) \<Rightarrow>
                  (let (isValid, sec2) =
                         verifyIntegrity P sec1 decryptedData (cd_integrityHash decryptedData)
                   in if \<not> isValid
                      then (Rejects (Error ''Credit data integrity check failed''),
                            st\<lparr>st_security := sec2\<rparr>)
                      else (Resolves (Some decryptedData), st\<lparr>st_security := sec2\<rparr>)))))"

text \<open>
  \<^verbatim>\<open>logTransaction(type, amount, operation, metadata)\<close>; \<open>add_ok\<close> is the outcome of the
  \<^verbatim>\<open>add\<close> request. The result is the key of the new record.
\<close>

definition logTransaction ::
  "platform \<Rightarrow> int \<Rightarrow> bool \<Rightarrow> CreditStorage \<Rightarrow> string \<Rightarrow> int \<Rightarrow> string \<Rightarrow> metadata
     \<Rightarrow> (exn + nat) \<times> CreditStorage" where
  "logTransaction P now add_ok st type amount operation md =
     (let (fp, sec1) = generateDeviceFingerprint P (st_security st);
          transaction = \<lparr>tx_id = st_nextKey st, tx_type = type, tx_amount = amount,
                         tx_operation = operation, tx_metadata = md, tx_timestamp = now,
                         tx_deviceFingerprint = fp\<rparr>;
          st1 = st\<lparr>st_security := sec1\<rparr>
      in if \<not> st_db st1 then (Inl notInitialized, st1)
         else if add_ok
         then (Inr (st_nextKey st1),
               st1\<lparr>st_transactions := st_transactions st1 @ [transaction],
                    st_nextKey := Suc (st_nextKey st1)\<rparr>)
         else (Inl (Error ''Failed to log transaction''), st1))"

text \<open>
  \<^verbatim>\<open>saveBackupCodes(codes)\<close>. All \<^verbatim>\<open>put\<close> requests belong to one IndexedDB transaction:
  \<open>put_ok\<close> says whether it commits. A failed request rejects with no value.
\<close>

definition putBackupCodes :: "int \<Rightarrow> string list \<Rightarrow> (string \<rightharpoonup> backupCode_record) \<Rightarrow> (string \<rightharpoonup> backupCode_record)" where
  "putBackupCodes now codes store =
     foldl (\<lambda>m code. m(code \<mapsto> \<lparr>bc_created = now, bc_used = False, bc_usedAt = None\<rparr>))
       store codes"

definition saveBackupCodes ::
  "int \<Rightarrow> bool \<Rightarrow> CreditStorage \<Rightarrow> string list \<Rightarrow> (exn + unit) \<times> CreditStorage" where
  "saveBackupCodes now put_ok st codes =
     (if \<not> st_db st then (Inl notInitialized, st)
      else if codes = [] then (Inr (), st)
      else if put_ok
      then (Inr (), st\<lparr>st_backupCodes := putBackupCodes now codes (st_backupCodes st)\<rparr>)
      else (Inl Thrown, st))"

text \<open>
  \<^verbatim>\<open>useBackupCode(code)\<close>; \<open>get_ok\<close> and \<open>put_ok\<close> are the outcomes of the two
  requests, \<open>now\<close> is \<^verbatim>\<open>Date.now()\<close>.
\<close>

definition CreditStorage_useBackupCode ::
  "int \<Rightarrow> bool \<Rightarrow> bool \<Rightarrow> CreditStorage \<Rightarrow> string \<Rightarrow> (exn + bool) \<times> CreditStorage" where
  "CreditStorage_useBackupCode now get_ok put_ok st code =
     (if \<not> st_db st then (Inl notInitialized, st)
      else if \<not> get_ok then (Inl (Error ''Failed to verify backup code''), st)
      else
        (case st_backupCodes st (toUpperCase code) of
           None \<Rightarrow> (Inr False, st)
         | Some result \<Rightarrow>
             if bc_used result then (Inr False, st)
             else if put_ok
             then (Inr True,
                   st\<lparr>st_backupCodes := (st_backupCodes st)
                        (toUpperCase code \<mapsto> result\<lparr>bc_used := True, bc_usedAt := Some now\<rparr>)\<rparr>)
             else (Inl (Error ''Failed to mark backup code as used''), st)))"


text \<open>\<^verbatim>\<open>requestPersistentStorage()\<close>: \<open>persist\<close> is the platform's answer, \<open>None\<close> when the
  storage manager is missing or its call throws. The function never throws.\<close>

definition requestPersistentStorage :: "bool option \<Rightarrow> bool" where
  "requestPersistentStorage persist = (case persist of Some isPersistent \<Rightarrow> isPersistent | None \<Rightarrow> False)"

subsection \<open>Credit manager (\<^verbatim>\<open>creditManager.js\<close>)\<close>

definition POLISH_TEXT :: int where "POLISH_TEXT = 3"
definition TRANSLATE :: int where "TRANSLATE = 7"
definition COMPLETE :: int where "COMPLETE = 10"






text \<open>
  The manager object. \<open>notified\<close> lists the balances passed to the balance-change
  listeners so far: \<^verbatim>\<open>notifyBalanceChange\<close> calls every listener and swallows what a
  listener throws, so it never throws itself.
\<close>

record CreditManager =
  mgr_storage :: CreditStorage
  mgr_security :: CreditSecurity
  currentBalance :: int
  mgr_deviceFingerprint :: "string option"
  isInitialized :: bool
  notified :: "int list"

definition new_CreditManager :: CreditManager where
  "new_CreditManager =
     \<lparr>mgr_storage = new_CreditStorage, mgr_security = new_CreditSecurity, currentBalance = 0,
      mgr_deviceFingerprint = None, isInitialized = False, notified = []\<rparr>"

text \<open>The parameters of one \<^verbatim>\<open>saveCreditBalance\<close> call and of one \<^verbatim>\<open>logTransaction\<close> call.\<close>

record save_world =
  sw_now :: int
  sw_nonce :: bytes
  sw_put_ok :: bool

record log_world =
  lw_now :: int
  lw_add_ok :: bool

definition saveBalance :: "platform \<Rightarrow> save_world \<Rightarrow> CreditManager \<Rightarrow> (exn + unit) \<times> CreditManager" where
  "saveBalance P sw m =
     (case saveCreditBalance P (sw_now sw) (sw_nonce sw) (sw_put_ok sw) (mgr_storage m)
             (currentBalance m) (mgr_deviceFingerprint m) of
        (Inr u, st) \<Rightarrow> (Inr u, m\<lparr>mgr_storage := st\<rparr>)
      | (Inl error, st) \<Rightarrow> (Inl error, m\<lparr>mgr_storage := st\<rparr>))"

text \<open>
  \<^verbatim>\<open>loadBalance()\<close>. A failing save in the branch for an absent record is caught by the
  same handler, which saves again: \<open>sw1\<close> and \<open>sw2\<close> are the parameters of the first and
  of the second save.
\<close>

definition loadBalance ::
  "platform \<Rightarrow> bool \<Rightarrow> save_world \<Rightarrow> save_world \<Rightarrow> CreditManager \<Rightarrow> unit promise \<times> CreditManager" where
  "loadBalance P get_ok sw1 sw2 m =
     (case getCreditBalance P get_ok (mgr_storage m) of
        (NeverSettles, st) \<Rightarrow> (NeverSettles, m\<lparr>mgr_storage := st\<rparr>)
      | (Resolves (Some balanceData), st) \<Rightarrow>
          (Resolves (),
           m\<lparr>mgr_storage := st,
              currentBalance := (case cd_balance balanceData of Some b \<Rightarrow> b | None \<Rightarrow> 0)\<rparr>)
      | (Resolves None, st) \<Rightarrow>
          (case saveBalance P sw1 (m\<lparr>mgr_storage := st, currentBalance := 0\<rparr>) of
             (Inr u, m1) \<Rightarrow> (Resolves (), m1)
           | (Inl error, m1) \<Rightarrow>
               (case saveBalance P sw2 (m1\<lparr>currentBalance := 0\<rparr>) of
                  (Inr u, m2) \<Rightarrow> (Resolves (), m2)
                | (Inl error', m2) \<Rightarrow> (Rejects error', m2)))
      | (Rejects error, st) \<Rightarrow>
          (case saveBalance P sw1 (m\<lparr>mgr_storage := st, currentBalance := 0\<rparr>) of
             (Inr u, m1) \<Rightarrow> (Resolves (), m1)
           | (Inl error', m1) \<Rightarrow> (Rejects error', m1)))"

record init_world =
  iw_open_ok :: bool
  iw_get_ok :: bool
  iw_save1 :: save_world
  iw_save2 :: save_world
  iw_persist :: "bool option"

definition initialize :: "platform \<Rightarrow> init_world \<Rightarrow> CreditManager \<Rightarrow> unit promise \<times> CreditManager" where
  "initialize P iw m =
     (if isInitialized m then (Resolves (), m)
      else
        (case init (iw_open_ok iw) (mgr_storage m) of
           (Inl error, st) \<Rightarrow> (Rejects error, m\<lparr>mgr_storage := st\<rparr>)
         | (Inr u, st) \<Rightarrow>
             (let (fp, sec) = generateDeviceFingerprint P (mgr_security m);
                  m1 = m\<lparr>mgr_storage := st, mgr_security := sec, mgr_deviceFingerprint := Some fp\<rparr>
              in case loadBalance P (iw_get_ok iw) (iw_save1 iw) (iw_save2 iw) m1 of
                   (Resolves u', m2) \<Rightarrow>
                     (let isPersistent = requestPersistentStorage (iw_persist iw)
                      in (Resolves (), m2\<lparr>isInitialized := True\<rparr>))
                 | (Rejects error, m2) \<Rightarrow> (Rejects error, m2)
                 | (NeverSettles, m2) \<Rightarrow> (NeverSettles, m2))))"

definition getBalance :: "CreditManager \<Rightarrow> int" where
  "getBalance m = currentBalance m"

definition notifyBalanceChange :: "CreditManager \<Rightarrow> CreditManager" where
  "notifyBalanceChange m = m\<lparr>notified := notified m @ [currentBalance m]\<rparr>"

definition hasSufficientCredits :: "CreditManager \<Rightarrow> int \<Rightarrow> bool" where
  "hasSufficientCredits m cost = (currentBalance m \<ge> cost)"

definition getCost :: "string \<Rightarrow> exn + int" where
  "getCost operation =
     (if operation = ''polish'' then Inr POLISH_TEXT
      else if operation = ''translate'' then Inr TRANSLATE
      else if operation = ''complete'' then Inr COMPLETE
      else Inl (Error (''Unknown operation: '' @ operation)))"

text \<open>The object returned by a deduction or an addition.\<close>

record mutationResult =
  mr_success :: bool
  mr_previousBalance :: int
  mr_newBalance :: int
  mr_amount :: int

definition deductCredits ::
  "platform \<Rightarrow> save_world \<Rightarrow> log_world \<Rightarrow> CreditManager \<Rightarrow> int \<Rightarrow> string \<Rightarrow> (string \<times> string) list
     \<Rightarrow> (exn + mutationResult) \<times> CreditManager" where
  "deductCredits P sw lw m cost operation md =
     (if \<not> hasSufficientCredits m cost
      then (Inl (Error (''Insufficient credits. Required: '' @ Number_toString cost
                         @ '', Available: '' @ Number_toString (currentBalance m))), m)
      else
        (let previousBalance = currentBalance m;
             m1 = m\<lparr>currentBalance := currentBalance m - cost\<rparr>
         in case saveBalance P sw m1 of
              (Inl error, m2) \<Rightarrow>
                (Inl (Error (''Failed to deduct credits: '' @ messageText error)),
                 m2\<lparr>currentBalance := previousBalance\<rparr>)
            | (Inr u, m2) \<Rightarrow>
                (case logTransaction P (lw_now lw) (lw_add_ok lw) (mgr_storage m2) ''deduction''
                        cost operation
                        \<lparr>md_entries = md, md_previousBalance = previousBalance,
                         md_newBalance = currentBalance m2\<rparr> of
                   (Inl error, st) \<Rightarrow>
                     (Inl (Error (''Failed to deduct credits: '' @ messageText error)),
                      m2\<lparr>mgr_storage := st, currentBalance := previousBalance\<rparr>)
                 | (Inr key, st) \<Rightarrow>
                     (let m3 = notifyBalanceChange (m2\<lparr>mgr_storage := st\<rparr>)
                      in (Inr \<lparr>mr_success = True, mr_previousBalance = previousBalance,
                               mr_newBalance = currentBalance m3, mr_amount = cost\<rparr>, m3)))))"

definition addCredits ::
  "platform \<Rightarrow> save_world \<Rightarrow> log_world \<Rightarrow> CreditManager \<Rightarrow> int \<Rightarrow> string \<Rightarrow> (string \<times> string) list
     \<Rightarrow> (exn + mutationResult) \<times> CreditManager" where
  "addCredits P sw lw m amount source md =
     (let previousBalance = currentBalance m;
          m1 = m\<lparr>currentBalance := currentBalance m + amount\<rparr>
      in case saveBalance P sw m1 of
           (Inl error, m2) \<Rightarrow>
             (Inl (Error (''Failed to add credits: '' @ messageText error)),
              m2\<lparr>currentBalance := previousBalance\<rparr>)
         | (Inr u, m2) \<Rightarrow>
             (case logTransaction P (lw_now lw) (lw_add_ok lw) (mgr_storage m2) ''purchase''
                     amount source
                     \<lparr>md_entries = md, md_previousBalance = previousBalance,
                      md_newBalance = currentBalance m2\<rparr> of
                (Inl error, st) \<Rightarrow>
                  (Inl (Error (''Failed to add credits: '' @ messageText error)),
                   m2\<lparr>mgr_storage := st, currentBalance := previousBalance\<rparr>)
              | (Inr key, st) \<Rightarrow>
                  (let m3 = notifyBalanceChange (m2\<lparr>mgr_storage := st\<rparr>)
                   in (Inr \<lparr>mr_success = True, mr_previousBalance = previousBalance,
                            mr_newBalance = currentBalance m3, mr_amount = amount\<rparr>, m3))))"





text \<open>\<^verbatim>\<open>generateBackupCodes()\<close> and \<^verbatim>\<open>useBackupCode(code)\<close> of the manager.\<close>

definition CreditManager_generateBackupCodes ::
  "(nat \<Rightarrow> uint32x3) \<Rightarrow> int \<Rightarrow> bool \<Rightarrow> CreditManager \<Rightarrow> (exn + string list) \<times> CreditManager" where
  "CreditManager_generateBackupCodes rng now put_ok m =
     (let codes = generateBackupCodes rng 5
      in case saveBackupCodes now put_ok (mgr_storage m) codes of
           (Inl error, st) \<Rightarrow> (Inl error, m\<lparr>mgr_storage := st\<rparr>)
         | (Inr u, st) \<Rightarrow> (Inr codes, m\<lparr>mgr_storage := st\<rparr>))"

definition CreditManager_useBackupCode ::
  "int \<Rightarrow> bool \<Rightarrow> bool \<Rightarrow> CreditManager \<Rightarrow> string \<Rightarrow> (exn + bool) \<times> CreditManager" where
  "CreditManager_useBackupCode now get_ok put_ok m code =
     (if \<not> isValidBackupCode code then (Inl (Error ''Invalid backup code format''), m)
      else
        (case CreditStorage_useBackupCode now get_ok put_ok (mgr_storage m) code of
           (r, st) \<Rightarrow> (r, m\<lparr>mgr_storage := st\<rparr>)))"

subsection \<open>Integration layer (\<^verbatim>\<open>creditIntegration.js\<close>)\<close>

text \<open>
  The wrapper that \<^verbatim>\<open>wrapFunction(object, functionName, operation, metadata)\<close> installs.
  \<^item> The original function is an oracle: \<open>f k\<close> is the outcome of its \<open>k\<close>-th invocation
    (counted from 0), either a returned value (\<open>None\<close> for \<^verbatim>\<open>null\<close> or
    \<^verbatim>\<open>undefined\<close>) or a thrown exception. It is assumed not to use the Credit Manager itself.
  \<^item> \<open>ui\<close> is the user's answer to the cost preview; the promise of
    \<^verbatim>\<open>creditUI.getCostPreview\<close> never rejects, and stays pending without an answer.
  \<^item> \<open>now\<close> is \<^verbatim>\<open>Date.now()\<close> and \<open>nargs\<close> is \<^verbatim>\<open>args.length\<close>.
  The result carries the number of invocations of the original function.
\<close>

datatype 'r call = Returns "'r option" | Throws exn

datatype ui_answer = Confirmed | Declined | NoAnswer

text \<open>The \<^verbatim>\<open>try\<close> block of the wrapper.\<close>

definition wrapFunction_try ::
  "platform \<Rightarrow> save_world \<Rightarrow> log_world \<Rightarrow> int \<Rightarrow> ui_answer \<Rightarrow> (nat \<Rightarrow> 'r call) \<Rightarrow> CreditManager
     \<Rightarrow> string \<Rightarrow> (string \<times> string) list \<Rightarrow> nat \<Rightarrow> 'r option promise \<times> CreditManager \<times> nat" where
  "wrapFunction_try P sw lw now ui f m operation md nargs =
     (case getCost operation of
        Inl error \<Rightarrow> (Rejects error, m, 0)
      | Inr cost \<Rightarrow>
          if \<not> hasSufficientCredits m cost
          then (Rejects (Error (''Insufficient credits for '' @ operation @ ''. Need ''
                                @ Number_toString cost @ '' credits, have ''
                                @ Number_toString (getBalance m) @ ''.'')), m, 0)
          else
            (case ui of
               NoAnswer \<Rightarrow> (NeverSettles, m, 0)
             | Declined \<Rightarrow> (Resolves None, m, 0)
             | Confirmed \<Rightarrow>
                 (case f 0 of
                    Throws error \<Rightarrow> (Rejects error, m, 1)
                  | Returns None \<Rightarrow> (Resolves None, m, 1)
                  | Returns (Some result) \<Rightarrow>
                      (case deductCredits P sw lw m cost operation
                              (md @ [(''timestamp'', Number_toString now),
                                     (''args'', Number_toString (int nargs)),
                                     (''success'', ''true'')]) of
                         (Inl error, m') \<Rightarrow> (Rejects error, m', 1)
                       | (Inr r, m') \<Rightarrow> (Resolves (Some result), m', 1)))))"

text \<open>
  Showing the purchase dialogue (\<^verbatim>\<open>creditUI.showPurchaseModal()\<close>) changes no state of the
  model. The wrapper with its handler: an error whose message mentions credits is rethrown; after
  any other error the original function is invoked (again), and its outcome is the
  outcome of the wrapper. Reading \<^verbatim>\<open>message.includes\<close> on a thrown value without a
  message is a \<^verbatim>\<open>TypeError\<close>.
\<close>

definition wrapFunction ::
  "platform \<Rightarrow> save_world \<Rightarrow> log_world \<Rightarrow> int \<Rightarrow> ui_answer \<Rightarrow> (nat \<Rightarrow> 'r call) \<Rightarrow> CreditManager
     \<Rightarrow> string \<Rightarrow> (string \<times> string) list \<Rightarrow> nat \<Rightarrow> 'r option promise \<times> CreditManager \<times> nat" where
  "wrapFunction P sw lw now ui f m operation md nargs =
     (case wrapFunction_try P sw lw now ui f m operation md nargs of
        (Rejects error, m', n) \<Rightarrow>
          (case message error of
             None \<Rightarrow>
               (Rejects (TypeError ''Cannot read properties of undefined (reading 'includes')''),
                m', n)
           | Some msg \<Rightarrow>
               if String_includes msg ''credits'' \<or> String_includes msg ''Credits''
               then (Rejects error, m', n)
               else
                 (case f n of
                    Throws originalError \<Rightarrow> (Rejects originalError, m', Suc n)
                  | Returns r \<Rightarrow> (Resolves r, m', Suc n)))
      | (Resolves r, m', n) \<Rightarrow> (Resolves r, m', n)
      | (NeverSettles, m', n) \<Rightarrow> (NeverSettles, m', n))"

subsection \<open>Sequences of Credit Manager mutations\<close>





subsection \<open>A platform and states for evaluation\<close>

text \<open>
  A small platform on which the operations can be evaluated: the digest is one byte (the
  length of the text), the serialisation of a balance record keeps its balance, the cipher
  writes the character codes of the text out, and nothing decrypts.
\<close>

definition demo_platform :: platform where
  "demo_platform =
     \<lparr>screen_width = 1920, screen_height = 1080, screen_colorDepth = 24, timeZone = ''UTC'',
      navigator_language = ''en-US'', navigator_platform = ''Linux x86_64'',
      navigator_userAgent = ''demo'', canvas_toDataURL = None,
      sha256 = (\<lambda>text. [word_of_nat (length text)]),
      pbkdf2_sha256 = (\<lambda>material salt iterations. []),
      aes_gcm_encrypt = (\<lambda>key iv text. map (\<lambda>c. word_of_nat (of_char c)) text),
      aes_gcm_decrypt = (\<lambda>key iv ciphertext. None),
      JSON_stringify = (\<lambda>d. case cd_balance d of Some b \<Rightarrow> Number_toString b | None \<Rightarrow> []),
      JSON_parse = (\<lambda>text. None),
      maxTypedArrayLength = 4294967295\<rparr>"

text \<open>A manager whose database is open and whose balance is \<open>b\<close>.\<close>

definition opened_manager :: "int \<Rightarrow> CreditManager" where
  "opened_manager b =
     new_CreditManager\<lparr>mgr_storage := new_CreditStorage\<lparr>st_db := True\<rparr>, currentBalance := b\<rparr>"

definition save_succeeds :: save_world where
  "save_succeeds = \<lparr>sw_now = 1000, sw_nonce = replicate 12 0, sw_put_ok = True\<rparr>"

definition save_fails :: save_world where
  "save_fails = \<lparr>sw_now = 1000, sw_nonce = replicate 12 0, sw_put_ok = False\<rparr>"

definition log_succeeds :: log_world where
  "log_succeeds = \<lparr>lw_now = 1001, lw_add_ok = True\<rparr>"

definition log_fails :: log_world where
  "log_fails = \<lparr>lw_now = 1001, lw_add_ok = False\<rparr>"

definition all_requests_succeed :: init_world where
  "all_requests_succeed =
     \<lparr>iw_open_ok = True, iw_get_ok = True, iw_save1 = save_succeeds, iw_save2 = save_succeeds,
      iw_persist = Some True\<rparr>"

text \<open>
  A typed-array source from which \<^verbatim>\<open>new Uint8Array\<close> reads bytes, if any: an array of
  numbers, \<^verbatim>\<open>undefined\<close> or \<^verbatim>\<open>null\<close>, and the bytes it yields.
\<close>

fun arrayOrAbsent :: "typedArraySource \<Rightarrow> bool" where
  "arrayOrAbsent (Length n) = False"
| "arrayOrAbsent Undefined = True"
| "arrayOrAbsent Null = True"
| "arrayOrAbsent (Elements xs) = True"

fun bytesOf :: "typedArraySource \<Rightarrow> bytes" where
  "bytesOf (Elements xs) = map word_of_int xs"
| "bytesOf Undefined = []"
| "bytesOf Null = []"
| "bytesOf (Length n) = replicate (nat n) 0"

text \<open>
  A store that holds one balance record with some ciphertext, a store that holds one
  unused backup code, and a platform on which every ciphertext decrypts to an object
  without integrity hash.
\<close>

definition storage_with_record :: CreditStorage where
  "storage_with_record =
     new_CreditStorage
       \<lparr>st_db := True,
        st_credits := Some \<lparr>ecr_id = ''main'',
                            ecr_data = Some \<lparr>ed_encrypted = Elements [1, 2, 3],
                                             ed_iv = Elements (replicate 12 0)\<rparr>,
                            ecr_deviceFingerprint = None, ecr_timestamp = 1000\<rparr>\<rparr>"

definition storage_with_code :: CreditStorage where
  "storage_with_code =
     new_CreditStorage
       \<lparr>st_db := True,
        st_backupCodes := [''ABCDEF0123456789'' \<mapsto>
                             \<lparr>bc_created = 1000, bc_used = False, bc_usedAt = None\<rparr>]\<rparr>"

definition unsigned_record :: creditData where
  "unsigned_record =
     \<lparr>cd_id = Some ''main'', cd_balance = Some 1000000, cd_deviceFingerprint = None,
      cd_timestamp = Some 1000, cd_lastModified = Some 1000, cd_integrityHash = None\<rparr>"

definition forging_platform :: platform where
  "forging_platform =
     demo_platform\<lparr>aes_gcm_decrypt := (\<lambda>key iv ciphertext. Some ''forged''),
                    JSON_parse := (\<lambda>text. Some (JsonObject unsigned_record))\<rparr>"


text \<open>An original function that always fails, and one that fails once and then returns
  a value.\<close>

definition always_fails :: "nat \<Rightarrow> string call" where
  "always_fails k = Throws (Error ''Service unavailable'')"


fun fails_once :: "nat \<Rightarrow> string call" where
  "fails_once 0 = Throws (Error ''Network error'')"
| "fails_once (Suc k) = Returns (Some ''translated text'')"

subsection \<open>The persisted balance\<close>

text \<open>
  The balance of the persisted balance record is the one \<^verbatim>\<open>getCreditBalance()\<close> reads
  back from the store (with the read request served); there is none when the read does
  not resolve with a record.
\<close>

definition persistedBalance :: "platform \<Rightarrow> CreditStorage \<Rightarrow> int option" where
  "persistedBalance P st =
     (case fst (getCreditBalance P True st) of
        Resolves (Some d) \<Rightarrow> cd_balance d
      | _ \<Rightarrow> None)"

text \<open>
  A platform round-trips when decryption undoes encryption and parsing undoes
  serialisation, as AES-GCM and JSON do on balance records.
\<close>

definition round_trips :: "platform \<Rightarrow> bool" where
  "round_trips P \<longleftrightarrow>
     (\<forall>k iv t. aes_gcm_decrypt P k iv (aes_gcm_encrypt P k iv t) = Some t) \<and>
     (\<forall>d. JSON_parse P (JSON_stringify P d) = Some (JsonObject d))"

text \<open>Neither the in-memory balance nor the persisted one, if there is one, is negative.\<close>

definition nonNegativeState :: "platform \<Rightarrow> CreditManager \<Rightarrow> bool" where
  "nonNegativeState P m \<longleftrightarrow>
     0 \<le> currentBalance m \<and>
     (case persistedBalance P (mgr_storage m) of Some b \<Rightarrow> 0 \<le> b | None \<Rightarrow> True)"

text \<open>
  A platform that round-trips: the cipher of the evaluation platform with its inverse, and
  a serialisation that writes a balance record as the number that encodes its fields,
  in unary.
\<close>

type_synonym creditTuple =
  "string option \<times> int option \<times> string option \<times> int option \<times> int option \<times> string option"

definition fields_of :: "creditData \<Rightarrow> creditTuple" where
  "fields_of d =
     (cd_id d, cd_balance d, cd_deviceFingerprint d, cd_timestamp d, cd_lastModified d,
      cd_integrityHash d)"

definition record_of :: "creditTuple \<Rightarrow> creditData" where
  "record_of t =
     (case t of (i, b, f, ts, lm, h) \<Rightarrow>
        \<lparr>cd_id = i, cd_balance = b, cd_deviceFingerprint = f, cd_timestamp = ts,
         cd_lastModified = lm, cd_integrityHash = h\<rparr>)"

definition lossless_platform :: platform where
  "lossless_platform =
     demo_platform
       \<lparr>aes_gcm_decrypt := (\<lambda>key iv ciphertext. Some (map (\<lambda>b. char_of (unat b)) ciphertext)),
        JSON_stringify := (\<lambda>d. replicate (to_nat (fields_of d)) CHR ''x''),
        JSON_parse := (\<lambda>text. Some (JsonObject (record_of (from_nat (length text)))))\<rparr>"

section \<open>Properties\<close>

subsection \<open>Auxiliary facts\<close>

lemma digitChar_hex: "d < 16 \<Longrightarrow> digitChar d \<in> set ''0123456789abcdef''"
  unfolding digitChar_def by (rule nth_mem) simp

lemma digitChar_3: "digitChar 3 = CHR ''3''"
  by (simp add: digitChar_def eval_nat_numeral)

lemma toString10_digit: "n < 10 \<Longrightarrow> toString10 n = [digitChar n]"
  by (subst toString10.simps) simp

lemma toString16_chars: "set (toString16 n) \<subseteq> set ''0123456789abcdef''"
proof (induction n rule: toString16.induct)
  case (1 n)
  show ?case
  proof (cases "n < 16")
    case True
    then show ?thesis using digitChar_hex [of n] by (subst toString16.simps) simp
  next
    case False
    have "n mod 16 < 16" by simp
    then have "digitChar (n mod 16) \<in> set ''0123456789abcdef''" by (rule digitChar_hex)
    with False 1 show ?thesis by (subst toString16.simps) simp
  qed
qed

lemma toString16_length: "n < 16 ^ k \<Longrightarrow> 0 < k \<Longrightarrow> length (toString16 n) \<le> k"
proof (induction n arbitrary: k rule: toString16.induct)
  case (1 n)
  show ?case
  proof (cases "n < 16")
    case True
    then show ?thesis using 1(3) by (subst toString16.simps) simp
  next
    case False
    then obtain j where k: "k = Suc j" using 1(3) by (cases k) auto
    have "0 < j" using False 1(2) k by (cases j) auto
    moreover have "n div 16 < 16 ^ j"
      using 1(2) k by (simp add: less_mult_imp_div_less mult.commute)
    ultimately have "length (toString16 (n div 16)) \<le> j" using 1(1) [OF False] by blast
    then show ?thesis using False k by (subst toString16.simps) simp
  qed
qed

lemma toUpperChar_hex:
  "c \<in> set ''0123456789abcdef'' \<Longrightarrow> toUpperChar c \<in> set ''ABCDEF0123456789''"
proof -
  have "\<forall>c \<in> set ''0123456789abcdef''. toUpperChar c \<in> set ''ABCDEF0123456789''"
    by code_simp
  then show "c \<in> set ''0123456789abcdef'' \<Longrightarrow> toUpperChar c \<in> set ''ABCDEF0123456789''"
    by blast
qed

lemma hex8_length: "length (padStart 8 CHR ''0'' (toString16 (unat (w :: 32 word)))) = 8"
proof -
  have "unat w < 2 ^ 32" using unsigned_less [of w] by simp
  then have "unat w < 16 ^ 8" by simp
  then have "length (toString16 (unat w)) \<le> 8" by (rule toString16_length) simp
  then show ?thesis by (simp add: padStart_def)
qed

lemma hex8_chars: "set (padStart 8 CHR ''0'' (toString16 n)) \<subseteq> set ''0123456789abcdef''"
  using toString16_chars [of n] by (auto simp: padStart_def)

lemma reduce_hex_length: "length (reduce_hex r) = 24"
  by (cases r) (simp add: reduce_hex_def hex8_length)

lemma reduce_hex_chars: "set (reduce_hex r) \<subseteq> set ''0123456789abcdef''"
proof (cases r)
  case (fields a b c)
  show ?thesis
    using hex8_chars [of "unat a"] hex8_chars [of "unat b"] hex8_chars [of "unat c"]
    unfolding fields reduce_hex_def by simp
qed

lemma backupCode_matches: "matches_backup_pattern (backupCode r)"
proof -
  have len: "length (backupCode r) = 16"
    by (simp add: backupCode_def toUpperCase_def reduce_hex_length)
  have "set (take 16 (reduce_hex r)) \<subseteq> set ''0123456789abcdef''"
    using reduce_hex_chars [of r] set_take_subset [of 16 "reduce_hex r"] by blast
  then have "\<And>c. c \<in> set (backupCode r) \<Longrightarrow> c \<in> set ''ABCDEF0123456789''"
    unfolding backupCode_def toUpperCase_def using toUpperChar_hex by auto
  then have "list_all (\<lambda>c. c \<in> set ''ABCDEF0123456789'') (backupCode r)"
    unfolding list_all_iff by blast
  with len show ?thesis unfolding matches_backup_pattern_def by blast
qed

lemma loop_length:
  "length (generateBackupCodes_loop rng count i codes) = length codes + nat (count - i)"
proof (induction rng count i codes rule: generateBackupCodes_loop.induct)
  case (1 rng count i codes)
  show ?case
  proof (cases "i < count")
    case True
    then show ?thesis
      using 1 by (subst generateBackupCodes_loop.simps) (simp add: nat_diff_distrib)
  next
    case False
    then show ?thesis by (subst generateBackupCodes_loop.simps) simp
  qed
qed

lemma loop_matches:
  "list_all matches_backup_pattern codes \<Longrightarrow>
   list_all matches_backup_pattern (generateBackupCodes_loop rng count i codes)"
proof (induction rng count i codes rule: generateBackupCodes_loop.induct)
  case (1 rng count i codes)
  show ?case
  proof (cases "i < count")
    case True
    have "list_all matches_backup_pattern (codes @ [backupCode (rng (nat i))])"
      using 1(2) backupCode_matches by simp
    then show ?thesis using True 1(1) by (subst generateBackupCodes_loop.simps) simp
  next
    case False
    then show ?thesis using 1(2) by (subst generateBackupCodes_loop.simps) simp
  qed
qed

lemma new_Uint8Array_bytesOf: "arrayOrAbsent x \<Longrightarrow> new_Uint8Array P x = Inr (bytesOf x)"
  by (cases x) (simp_all add: new_Uint8Array_def)

lemma decryptData_arrays:
  assumes "arrayOrAbsent (ed_iv ed)" and "arrayOrAbsent (ed_encrypted ed)"
  shows "fst (decryptData P sec (Some ed)) =
           Inr (case aes_gcm_decrypt P (fst (initializeCryptoKey P sec))
                       (bytesOf (ed_iv ed)) (bytesOf (ed_encrypted ed)) of
                  None \<Rightarrow> JsonNull
                | Some decryptedText \<Rightarrow>
                    (case JSON_parse P decryptedText of None \<Rightarrow> JsonNull | Some v \<Rightarrow> v))"
  using assms
  by (simp add: decryptData_def new_Uint8Array_bytesOf split_beta split: option.splits)

lemmas storage_defs =
  saveBalance_def saveCreditBalance_def logTransaction_def encryptData_def
  createIntegrityHash_def split_beta Let_def hasSufficientCredits_def notifyBalanceChange_def
  messageText_def

lemmas sample_defs =
  opened_manager_def new_CreditManager_def new_CreditStorage_def
  save_succeeds_def save_fails_def log_succeeds_def log_fails_def

subsection \<open>Reading back what was saved\<close>

text \<open>The caches of the crypto provider do not change the fingerprint or the key.\<close>

lemma fingerprint_stable:
  "generateDeviceFingerprint P (snd (generateDeviceFingerprint P sec))
     = generateDeviceFingerprint P sec"
  by (auto simp: generateDeviceFingerprint_def Let_def split: option.splits)

lemma fingerprint_after_key:
  "fst (generateDeviceFingerprint P (snd (initializeCryptoKey P sec)))
     = fst (generateDeviceFingerprint P sec)"
  by (auto simp: initializeCryptoKey_def generateDeviceFingerprint_def Let_def split_beta split: option.splits)

lemma key_stable:
  "fst (initializeCryptoKey P (snd (initializeCryptoKey P sec))) = fst (initializeCryptoKey P sec)"
  by (auto simp: initializeCryptoKey_def Let_def split_beta split: option.splits)

lemma key_after_fingerprint:
  "fst (initializeCryptoKey P (snd (generateDeviceFingerprint P sec)))
     = fst (initializeCryptoKey P sec)"
  by (auto simp: initializeCryptoKey_def generateDeviceFingerprint_def Let_def split_beta split: option.splits)

lemma bytes_round_trip: "new_Uint8Array P (Array_from bs) = Inr bs"
  by (simp add: new_Uint8Array_def Array_from_def map_idI)

lemma record_of_fields_of: "record_of (fields_of d) = d"
  by (simp add: record_of_def fields_of_def)

lemma char_round_trip: "char_of (unat (word_of_nat (of_char c) :: 8 word)) = c"
proof -
  have "(of_char c :: nat) mod 256 = of_char c" by simp
  then have "unat (word_of_nat (of_char c) :: 8 word) = of_char c"
    by (simp add: unat_of_nat)
  then show ?thesis by simp
qed

lemma round_trips_lossless: "round_trips lossless_platform"
  by (simp add: round_trips_def lossless_platform_def demo_platform_def record_of_fields_of
        char_round_trip comp_def map_idI)














lemma nonNegativeState_balance [simp]:
  "nonNegativeState P (m\<lparr>currentBalance := b\<rparr>) \<longleftrightarrow>
     0 \<le> b \<and> (case persistedBalance P (mgr_storage m) of Some x \<Rightarrow> 0 \<le> x | None \<Rightarrow> True)"
  by (simp add: nonNegativeState_def)


subsection \<open>Deduction and addition against the persisted balance\<close>

text \<open>
  When the save fails, the handler restores the in-memory balance and the stored record
  is the one from before the call.
\<close>

lemma deductCredits_save_failure:
  assumes "hasSufficientCredits m cost" and "\<not> (st_db (mgr_storage m) \<and> sw_put_ok sw)"
  shows "currentBalance (snd (deductCredits P sw lw m cost operation md)) = currentBalance m"
    and "st_credits (mgr_storage (snd (deductCredits P sw lw m cost operation md)))
           = st_credits (mgr_storage m)"
    and "st_transactions (mgr_storage (snd (deductCredits P sw lw m cost operation md)))
           = st_transactions (mgr_storage m)"
  using assms by (auto simp add: deductCredits_def storage_defs)

text \<open>
  When the save succeeds and the log append fails, the same handler restores the
  in-memory balance, while the stored record is the one written for the new balance.
\<close>

lemma deductCredits_log_failure:
  assumes "hasSufficientCredits m cost" and "st_db (mgr_storage m)" and "sw_put_ok sw"
    and "\<not> lw_add_ok lw"
  shows "fst (deductCredits P sw lw m cost operation md)
           = Inl (Error ''Failed to deduct credits: Failed to log transaction'')"
    and "currentBalance (snd (deductCredits P sw lw m cost operation md)) = currentBalance m"
    and "st_credits (mgr_storage (snd (deductCredits P sw lw m cost operation md)))
           = st_credits (snd (saveCreditBalance P (sw_now sw) (sw_nonce sw) True (mgr_storage m)
                                (currentBalance m - cost) (mgr_deviceFingerprint m)))"
  using assms by (simp_all add: deductCredits_def storage_defs)

lemma addCredits_log_failure:
  assumes "st_db (mgr_storage m)" and "sw_put_ok sw" and "\<not> lw_add_ok lw"
  shows "fst (addCredits P sw lw m amount source md)
           = Inl (Error ''Failed to add credits: Failed to log transaction'')"
    and "currentBalance (snd (addCredits P sw lw m amount source md)) = currentBalance m"
    and "st_credits (mgr_storage (snd (addCredits P sw lw m amount source md)))
           = st_credits (snd (saveCreditBalance P (sw_now sw) (sw_nonce sw) True (mgr_storage m)
                                (currentBalance m + amount) (mgr_deviceFingerprint m)))"
  using assms by (simp_all add: addCredits_def storage_defs)

text \<open>
  On a platform that round-trips, a deduction that completes leaves the persisted balance
  equal to the in-memory one, and a deduction whose log append fails leaves the persisted
  balance at the new value and the in-memory balance at the old one.
\<close>

lemma deductCredits_success_in_step:
  assumes "round_trips P" and "hasSufficientCredits m cost" and "st_db (mgr_storage m)"
    and "sw_put_ok sw" and "lw_add_ok lw"
  shows "persistedBalance P (mgr_storage (snd (deductCredits P sw lw m cost operation md)))
           = Some (currentBalance (snd (deductCredits P sw lw m cost operation md)))"
    and "currentBalance (snd (deductCredits P sw lw m cost operation md)) = currentBalance m - cost"
  using assms
  by (simp_all add: persistedBalance_def round_trips_def deductCredits_def hasSufficientCredits_def saveBalance_def logTransaction_def
        getCreditBalance_def saveCreditBalance_def encryptData_def decryptData_def notifyBalanceChange_def
        verifyIntegrity_def createIntegrityHash_def split_beta Let_def bytes_round_trip
        key_stable key_after_fingerprint fingerprint_after_key fingerprint_stable)

lemma deductCredits_log_failure_out_of_step:
  assumes "round_trips P" and "hasSufficientCredits m cost" and "st_db (mgr_storage m)"
    and "sw_put_ok sw" and "\<not> lw_add_ok lw"
  shows "persistedBalance P (mgr_storage (snd (deductCredits P sw lw m cost operation md)))
           = Some (currentBalance m - cost)"
    and "currentBalance (snd (deductCredits P sw lw m cost operation md)) = currentBalance m"
  using assms
  by (simp_all add: persistedBalance_def round_trips_def deductCredits_def hasSufficientCredits_def saveBalance_def logTransaction_def
        getCreditBalance_def saveCreditBalance_def encryptData_def decryptData_def
        verifyIntegrity_def createIntegrityHash_def split_beta Let_def bytes_round_trip
        key_stable key_after_fingerprint fingerprint_after_key fingerprint_stable)

text \<open>
  The same on the evaluation platform, where the ciphertext can be read: the balance is
  10, the record saved is the one for the balance 3 (its ciphertext is the character code
  of \<open>3\<close>), and the in-memory balance is 10 again.
\<close>

lemma deductCredits_log_failure_ciphertext:
  "fst (deductCredits demo_platform save_succeeds log_fails (opened_manager 10) 7 ''translate'' [])
     = Inl (Error ''Failed to deduct credits: Failed to log transaction'') \<and>
   currentBalance
     (snd (deductCredits demo_platform save_succeeds log_fails (opened_manager 10) 7
             ''translate'' [])) = 10 \<and>
   map_option ecr_data
     (st_credits (mgr_storage
        (snd (deductCredits demo_platform save_succeeds log_fails (opened_manager 10) 7
                ''translate'' []))))
     = Some (Some \<lparr>ed_encrypted = Elements [51], ed_iv = Elements (replicate 12 0)\<rparr>) \<and>
   st_credits (mgr_storage
        (snd (deductCredits demo_platform save_succeeds log_fails (opened_manager 10) 7
                ''translate'' [])))
     = st_credits (snd (saveCreditBalance demo_platform 1000 (replicate 12 0) True
                          (mgr_storage (opened_manager 10)) 3 None))"
  by (simp add: deductCredits_def storage_defs sample_defs demo_platform_def Array_from_def
        Number_toString_def toString10_digit digitChar_3)

text \<open>
  Claim C1. After a mutation of the Credit Manager the in-memory balance is meant to be the
  last persisted one, also when the log append fails after a successful save. The code
  does otherwise at this input: the balance is 10, \<^verbatim>\<open>deductCredits(7, 'translate')\<close> saves
  the record for the balance 3, the log append fails, and the handler sets the in-memory
  balance back to 10. The call throws, the store reads back 3 and the manager says 10.
\<close>

theorem deductCredits_log_failure_diverges:
  "fst (deductCredits lossless_platform save_succeeds log_fails (opened_manager 10) 7
          ''translate'' [])
     = Inl (Error ''Failed to deduct credits: Failed to log transaction'') \<and>
   persistedBalance lossless_platform
     (mgr_storage (snd (deductCredits lossless_platform save_succeeds log_fails
                          (opened_manager 10) 7 ''translate'' [])))
     = Some 3 \<and>
   getBalance (snd (deductCredits lossless_platform save_succeeds log_fails (opened_manager 10) 7
                      ''translate'' [])) = 10"
proof -
  have a: "hasSufficientCredits (opened_manager 10) 7"
    by (simp add: hasSufficientCredits_def opened_manager_def)
  have b: "st_db (mgr_storage (opened_manager 10))" by (simp add: opened_manager_def)
  have c: "sw_put_ok save_succeeds" by (simp add: save_succeeds_def)
  have d: "\<not> lw_add_ok log_fails" by (simp add: log_fails_def)
  have e: "currentBalance (opened_manager 10) = 10" by (simp add: opened_manager_def)
  show ?thesis
    using deductCredits_log_failure_out_of_step
            [OF round_trips_lossless a b c d, of "''translate''" "[]"]
          deductCredits_log_failure(1) [OF a b c d, of lossless_platform "''translate''" "[]"] e
    by (simp add: getBalance_def)
qed

subsection \<open>The balance never goes below zero\<close>






















subsection \<open>Insufficient credits\<close>

text \<open>
  Claim C4. For every cost and every balance, when \<^verbatim>\<open>hasSufficientCredits(cost)\<close> is false,
  \<^verbatim>\<open>deductCredits(cost, operation, metadata)\<close> throws the insufficiency error and the
  manager is the one from before the call: the same in-memory balance, the same stored
  balance record and the same transaction log.
\<close>

theorem deductCredits_insufficient:
  "\<not> hasSufficientCredits m cost \<Longrightarrow>
   deductCredits P sw lw m cost operation md =
     (Inl (Error (''Insufficient credits. Required: '' @ Number_toString cost
                   @ '', Available: '' @ Number_toString (currentBalance m))), m)"
  by (simp add: deductCredits_def)

theorem deductCredits_insufficient_witness:
  "\<not> hasSufficientCredits (opened_manager 3) 7 \<and>
   deductCredits demo_platform save_succeeds log_succeeds (opened_manager 3) 7 ''translate'' [] =
     (Inl (Error (''Insufficient credits. Required: '' @ Number_toString 7
                   @ '', Available: '' @ Number_toString (currentBalance (opened_manager 3)))),
      opened_manager 3)"
proof -
  have h: "\<not> hasSufficientCredits (opened_manager 3) 7"
    by (simp add: hasSufficientCredits_def opened_manager_def)
  show ?thesis
    using h deductCredits_insufficient [OF h, of demo_platform save_succeeds log_succeeds
                "''translate''" "[]"]
    by simp
qed

subsection \<open>Initialization\<close>

lemma initialize_marks:
  "initialize P iw m = (Resolves u, m') \<Longrightarrow> isInitialized m'"
  by (auto simp: initialize_def split_beta Let_def
           split: if_splits prod.splits sum.splits promise.splits)

text \<open>A first initialization on a fresh manager completes when every request succeeds; it
  writes the default balance record.\<close>

lemma initialize_fresh:
  "fst (initialize P all_requests_succeed new_CreditManager) = Resolves ()"
  by (simp add: initialize_def init_def loadBalance_def getCreditBalance_def saveBalance_def
        saveCreditBalance_def split_beta Let_def all_requests_succeed_def new_CreditManager_def
        new_CreditStorage_def save_succeeds_def)

lemma initialize_fresh_writes:
  "st_credits (mgr_storage (snd (initialize P all_requests_succeed new_CreditManager))) \<noteq> None \<and>
   currentBalance (snd (initialize P all_requests_succeed new_CreditManager)) = 0"
  by (simp add: initialize_def init_def loadBalance_def getCreditBalance_def saveBalance_def
        saveCreditBalance_def split_beta Let_def all_requests_succeed_def new_CreditManager_def
        new_CreditStorage_def save_succeeds_def)

text \<open>
  Claim C8. When a call of \<^verbatim>\<open>initialize()\<close> has completed, a second call completes too and
  is a no-op, whatever the platform and the storage requests would do: the manager and
  its store are exactly the ones the first call left, so the balance is the same, nothing
  is written, and the default balance is not persisted again.
\<close>

theorem initialize_idempotent:
  assumes "initialize P iw m = (Resolves (), m')"
  shows "initialize P' iw' m' = (Resolves (), m') \<and>
         getBalance (snd (initialize P' iw' m')) = getBalance m'"
proof -
  have "isInitialized m'" using assms by (rule initialize_marks)
  then show ?thesis by (simp add: initialize_def)
qed

theorem initialize_idempotent_witness:
  "initialize demo_platform all_requests_succeed new_CreditManager
     = (Resolves (), snd (initialize demo_platform all_requests_succeed new_CreditManager)) \<and>
   initialize demo_platform all_requests_succeed
       (snd (initialize demo_platform all_requests_succeed new_CreditManager))
     = (Resolves (), snd (initialize demo_platform all_requests_succeed new_CreditManager))"
proof -
  have h: "initialize demo_platform all_requests_succeed new_CreditManager
             = (Resolves (), snd (initialize demo_platform all_requests_succeed new_CreditManager))"
    using initialize_fresh [of demo_platform] by (simp add: prod_eq_iff)
  show ?thesis
    using h initialize_idempotent [OF h, of demo_platform all_requests_succeed] by simp
qed

subsection \<open>The wrapper of the integration layer\<close>

lemma wrapFunction_try_unchanged:
  "f 0 = Throws e \<Longrightarrow>
   fst (snd (wrapFunction_try P sw lw now ui f m operation md nargs)) = m"
  by (simp add: wrapFunction_try_def split: sum.splits ui_answer.splits)

text \<open>
  Claim C3, amended. If the wrapped function throws when it is first invoked, the wrapper
  deducts no credits: the manager and its store are unchanged. When the wrapper had
  reached the invocation (known operation, sufficient credits, user confirmed), it
  propagates that failure if the error's message mentions \<open>credits\<close> or \<open>Credits\<close>;
  otherwise it invokes the function a second time and returns what that invocation
  returns, or propagates what that invocation throws. A thrown value without a message
  makes the handler itself fail with a \<^verbatim>\<open>TypeError\<close>.
\<close>

theorem wrapFunction_no_deduction_on_failure:
  assumes "f 0 = Throws e"
  shows "fst (snd (wrapFunction P sw lw now ui f m operation md nargs)) = m \<and>
         (getCost operation = Inr cost \<and> hasSufficientCredits m cost \<and> ui = Confirmed \<longrightarrow>
            wrapFunction P sw lw now ui f m operation md nargs =
              (case message e of
                 None \<Rightarrow>
                   (Rejects (TypeError ''Cannot read properties of undefined (reading 'includes')''),
                    m, 1)
               | Some msg \<Rightarrow>
                   if String_includes msg ''credits'' \<or> String_includes msg ''Credits''
                   then (Rejects e, m, 1)
                   else (case f 1 of
                           Throws originalError \<Rightarrow> (Rejects originalError, m, 2)
                         | Returns r \<Rightarrow> (Resolves r, m, 2))))"
proof
  have "fst (snd (wrapFunction_try P sw lw now ui f m operation md nargs)) = m"
    using assms by (rule wrapFunction_try_unchanged)
  then show "fst (snd (wrapFunction P sw lw now ui f m operation md nargs)) = m"
    by (auto simp: wrapFunction_def split: prod.splits promise.splits option.splits call.splits)
  show "getCost operation = Inr cost \<and> hasSufficientCredits m cost \<and> ui = Confirmed \<longrightarrow>
            wrapFunction P sw lw now ui f m operation md nargs =
              (case message e of
                 None \<Rightarrow>
                   (Rejects (TypeError ''Cannot read properties of undefined (reading 'includes')''),
                    m, 1)
               | Some msg \<Rightarrow>
                   if String_includes msg ''credits'' \<or> String_includes msg ''Credits''
                   then (Rejects e, m, 1)
                   else (case f 1 of
                           Throws originalError \<Rightarrow> (Rejects originalError, m, 2)
                         | Returns r \<Rightarrow> (Resolves r, m, 2)))"
    using assms
    by (auto simp: wrapFunction_def wrapFunction_try_def split: option.splits call.splits)
qed

theorem wrapFunction_no_deduction_on_failure_witness:
  "always_fails 0 = Throws (Error ''Service unavailable'') \<and>
   getCost ''translate'' = Inr 7 \<and> hasSufficientCredits (opened_manager 10) 7 \<and>
   wrapFunction demo_platform save_succeeds log_succeeds 2000 Confirmed always_fails
      (opened_manager 10) ''translate'' [] 1
     = (Rejects (Error ''Service unavailable''), opened_manager 10, 2)"
proof -
  have a: "always_fails 0 = Throws (Error ''Service unavailable'')"
    by (simp add: always_fails_def)
  have b: "getCost ''translate'' = Inr 7" by (simp add: getCost_def TRANSLATE_def)
  have c: "hasSufficientCredits (opened_manager 10) 7"
    by (simp add: hasSufficientCredits_def opened_manager_def)
  show ?thesis
    using a b c
      wrapFunction_no_deduction_on_failure [of always_fails "Error ''Service unavailable''"
        demo_platform save_succeeds log_succeeds 2000 Confirmed "opened_manager 10"
        "''translate''" "[]" 1 7]
    by (simp add: always_fails_def)
qed

text \<open>
  Claim C3 as stated fails where the failure is not propagated: the function throws
  \<^verbatim>\<open>Error('Network error')\<close> at its first invocation and returns a value at its second;
  the wrapper returns that value to the caller, with no deduction, after two invocations.
\<close>

theorem wrapFunction_retry_succeeds:
  "wrapFunction demo_platform save_succeeds log_succeeds 2000 Confirmed fails_once
      (opened_manager 10) ''translate'' [] 1
     = (Resolves (Some ''translated text''), opened_manager 10, 2)"
  by (simp add: wrapFunction_def wrapFunction_try_def getCost_def TRANSLATE_def
        hasSufficientCredits_def opened_manager_def new_CreditManager_def eval_nat_numeral)

subsection \<open>Reading the balance record\<close>

text \<open>
  Claim C5. With the database open and the read request served, \<^verbatim>\<open>getCreditBalance()\<close>
  resolves with \<^verbatim>\<open>null\<close> exactly when no record is stored, rejects with
  \<^verbatim>\<open>Failed to decrypt credit data\<close> exactly when a record is stored and \<^verbatim>\<open>decryptData\<close>
  yields a falsy value (as it does when the stored ciphertext does not decrypt), and
  rejects with \<^verbatim>\<open>Credit data integrity check failed\<close> exactly when the record decrypts to an
  object whose stored hash differs from the recomputed one. The three results are
  pairwise different, so no two of the conditions are conflated.
\<close>

theorem getCreditBalance_outcomes:
  assumes "st_db st" and "get_ok"
  shows "(fst (getCreditBalance P get_ok st) = Resolves None \<longleftrightarrow> st_credits st = None) \<and>
         (fst (getCreditBalance P get_ok st) = Rejects (Error ''Failed to decrypt credit data'') \<longleftrightarrow>
            (\<exists>r. st_credits st = Some r \<and>
                 (fst (decryptData P (st_security st) (ecr_data r)) = Inr JsonNull \<or>
                  fst (decryptData P (st_security st) (ecr_data r)) = Inr JsonFalsy))) \<and>
         (fst (getCreditBalance P get_ok st)
            = Rejects (Error ''Credit data integrity check failed'') \<longleftrightarrow>
            (\<exists>r d. st_credits st = Some r \<and>
                 fst (decryptData P (st_security st) (ecr_data r)) = Inr (JsonObject d) \<and>
                 cd_integrityHash d \<noteq>
                   Some (fst (createIntegrityHash P
                                (snd (decryptData P (st_security st) (ecr_data r))) d)))) \<and>
         (st_credits st = Some r \<and> ecr_data r = Some ed \<and>
          arrayOrAbsent (ed_iv ed) \<and> arrayOrAbsent (ed_encrypted ed) \<and>
          aes_gcm_decrypt P (fst (initializeCryptoKey P (st_security st)))
             (bytesOf (ed_iv ed)) (bytesOf (ed_encrypted ed)) = None
          \<longrightarrow> fst (getCreditBalance P get_ok st)
                = Rejects (Error ''Failed to decrypt credit data'')) \<and>
         distinct [Resolves None, Rejects (Error ''Failed to decrypt credit data''),
                   Rejects (Error ''Credit data integrity check failed'')]"
proof (intro conjI impI)
  show "fst (getCreditBalance P get_ok st) = Resolves None \<longleftrightarrow> st_credits st = None"
    using assms
    by (auto simp: getCreditBalance_def verifyIntegrity_def split_beta Let_def
             split: option.splits sum.splits jsonValue.splits prod.splits)
  show "fst (getCreditBalance P get_ok st) = Rejects (Error ''Failed to decrypt credit data'') \<longleftrightarrow>
            (\<exists>r. st_credits st = Some r \<and>
                 (fst (decryptData P (st_security st) (ecr_data r)) = Inr JsonNull \<or>
                  fst (decryptData P (st_security st) (ecr_data r)) = Inr JsonFalsy))"
    using assms
    by (auto simp: getCreditBalance_def verifyIntegrity_def split_beta Let_def
             split: option.splits sum.splits jsonValue.splits prod.splits)
  show "fst (getCreditBalance P get_ok st)
            = Rejects (Error ''Credit data integrity check failed'') \<longleftrightarrow>
            (\<exists>r d. st_credits st = Some r \<and>
                 fst (decryptData P (st_security st) (ecr_data r)) = Inr (JsonObject d) \<and>
                 cd_integrityHash d \<noteq>
                   Some (fst (createIntegrityHash P
                                (snd (decryptData P (st_security st) (ecr_data r))) d)))"
    using assms
    by (auto simp: getCreditBalance_def verifyIntegrity_def split_beta Let_def
             split: option.splits sum.splits jsonValue.splits prod.splits)
  show "distinct [Resolves None, Rejects (Error ''Failed to decrypt credit data''),
                  Rejects (Error ''Credit data integrity check failed'')]"
    by simp
next
  assume h: "st_credits st = Some r \<and> ecr_data r = Some ed \<and>
          arrayOrAbsent (ed_iv ed) \<and> arrayOrAbsent (ed_encrypted ed) \<and>
          aes_gcm_decrypt P (fst (initializeCryptoKey P (st_security st)))
             (bytesOf (ed_iv ed)) (bytesOf (ed_encrypted ed)) = None"
  then have "fst (decryptData P (st_security st) (ecr_data r)) = Inr JsonNull"
    using decryptData_arrays [of ed P "st_security st"] by simp
  then show "fst (getCreditBalance P get_ok st)
               = Rejects (Error ''Failed to decrypt credit data'')"
    using assms h
    by (auto simp: getCreditBalance_def split_beta split: prod.splits sum.splits jsonValue.splits)
qed

theorem getCreditBalance_outcomes_witness:
  "st_db (new_CreditStorage\<lparr>st_db := True\<rparr>) \<and> st_db storage_with_record \<and>
   fst (getCreditBalance demo_platform True (new_CreditStorage\<lparr>st_db := True\<rparr>)) = Resolves None \<and>
   fst (getCreditBalance demo_platform True storage_with_record)
     = Rejects (Error ''Failed to decrypt credit data'') \<and>
   fst (getCreditBalance forging_platform True storage_with_record)
     = Rejects (Error ''Credit data integrity check failed'')"
proof -
  have a: "st_db (new_CreditStorage\<lparr>st_db := True\<rparr>)" by simp
  have b: "st_db storage_with_record" by (simp add: storage_with_record_def)
  have c: "st_credits (new_CreditStorage\<lparr>st_db := True\<rparr>) = None"
    by (simp add: new_CreditStorage_def)
  have d: "st_credits storage_with_record =
             Some \<lparr>ecr_id = ''main'',
                   ecr_data = Some \<lparr>ed_encrypted = Elements [1, 2, 3],
                                    ed_iv = Elements (replicate 12 0)\<rparr>,
                   ecr_deviceFingerprint = None, ecr_timestamp = 1000\<rparr>"
    by (simp add: storage_with_record_def)
  have e: "fst (decryptData forging_platform (st_security storage_with_record)
                  (Some \<lparr>ed_encrypted = Elements [1, 2, 3], ed_iv = Elements (replicate 12 0)\<rparr>))
             = Inr (JsonObject unsigned_record)"
    by (simp add: decryptData_def new_Uint8Array_def split_beta forging_platform_def)
  have f: "cd_integrityHash unsigned_record = None" by (simp add: unsigned_record_def)
  have 1: "fst (getCreditBalance demo_platform True (new_CreditStorage\<lparr>st_db := True\<rparr>))
             = Resolves None"
    using getCreditBalance_outcomes [OF a, of True demo_platform] c by simp
  have 2: "fst (getCreditBalance demo_platform True storage_with_record)
             = Rejects (Error ''Failed to decrypt credit data'')"
    using getCreditBalance_outcomes [OF b, of True demo_platform
            "\<lparr>ecr_id = ''main'',
              ecr_data = Some \<lparr>ed_encrypted = Elements [1, 2, 3],
                               ed_iv = Elements (replicate 12 0)\<rparr>,
              ecr_deviceFingerprint = None, ecr_timestamp = 1000\<rparr>"
            "\<lparr>ed_encrypted = Elements [1, 2, 3], ed_iv = Elements (replicate 12 0)\<rparr>"] d
    by (simp add: demo_platform_def)
  have 3: "fst (getCreditBalance forging_platform True storage_with_record)
             = Rejects (Error ''Credit data integrity check failed'')"
    using getCreditBalance_outcomes [OF b, of True forging_platform] d e f by auto
  show ?thesis using a b 1 2 3 by blast
qed

subsection \<open>Decryption\<close>

text \<open>
  Claim C6, amended. For every input object whose \<^verbatim>\<open>iv\<close> and \<^verbatim>\<open>encrypted\<close> fields are
  arrays of numbers or absent, \<^verbatim>\<open>decryptData\<close> does not throw: it returns \<^verbatim>\<open>null\<close> when
  the decryption rejects (an authentication tag that does not verify, a nonce of the wrong
  length) and when the plaintext is not JSON, and the parsed value otherwise.
\<close>

theorem decryptData_null_on_failure:
  assumes "arrayOrAbsent (ed_iv ed)" and "arrayOrAbsent (ed_encrypted ed)"
  shows "fst (decryptData P sec (Some ed)) =
           Inr (case aes_gcm_decrypt P (fst (initializeCryptoKey P sec))
                       (bytesOf (ed_iv ed)) (bytesOf (ed_encrypted ed)) of
                  None \<Rightarrow> JsonNull
                | Some decryptedText \<Rightarrow>
                    (case JSON_parse P decryptedText of None \<Rightarrow> JsonNull | Some v \<Rightarrow> v))"
  using assms by (rule decryptData_arrays)

theorem decryptData_null_on_failure_witness:
  "arrayOrAbsent (ed_iv \<lparr>ed_encrypted = Elements [1, 2, 3], ed_iv = Undefined\<rparr>) \<and>
   arrayOrAbsent (ed_encrypted \<lparr>ed_encrypted = Elements [1, 2, 3], ed_iv = Undefined\<rparr>) \<and>
   fst (decryptData demo_platform new_CreditSecurity
          (Some \<lparr>ed_encrypted = Elements [1, 2, 3], ed_iv = Undefined\<rparr>)) = Inr JsonNull"
  using decryptData_null_on_failure
          [of "\<lparr>ed_encrypted = Elements [1, 2, 3], ed_iv = Undefined\<rparr>" demo_platform
              new_CreditSecurity]
  by (simp add: demo_platform_def)

text \<open>
  Claim C6 as stated fails on input that is not such an object: on \<^verbatim>\<open>undefined\<close> the
  property read before the \<^verbatim>\<open>try\<close> block throws a \<^verbatim>\<open>TypeError\<close>, and on a negative
  number in the \<^verbatim>\<open>iv\<close> field the typed-array constructor throws a \<^verbatim>\<open>RangeError\<close>.
\<close>

theorem decryptData_throws:
  "fst (decryptData demo_platform new_CreditSecurity None)
     = Inl (TypeError ''Cannot read properties of undefined (reading 'iv')'') \<and>
   fst (decryptData demo_platform new_CreditSecurity
          (Some \<lparr>ed_encrypted = Elements [1, 2, 3], ed_iv = Length (- 1)\<rparr>))
     = Inl (RangeError (''Invalid typed array length: '' @ Number_toString (- 1)))"
  by (simp add: decryptData_def new_Uint8Array_def split_beta)

subsection \<open>Backup codes\<close>

lemma toUpperChar_fixed: "c \<in> set ''ABCDEF0123456789'' \<Longrightarrow> toUpperChar c = c"
proof -
  have "\<forall>c \<in> set ''ABCDEF0123456789''. toUpperChar c = c" by code_simp
  then show "c \<in> set ''ABCDEF0123456789'' \<Longrightarrow> toUpperChar c = c" by blast
qed

lemma toUpperCase_fixed: "matches_backup_pattern c \<Longrightarrow> toUpperCase c = c"
  unfolding matches_backup_pattern_def toUpperCase_def list_all_iff
  by (intro map_idI) (simp add: toUpperChar_fixed)

lemma toUpperCase_sample: "toUpperCase ''abcdef0123456789'' = ''ABCDEF0123456789''"
  by code_simp

lemma toUpperCase_zeros: "toUpperCase ''0000000000000000'' = ''0000000000000000''"
  by code_simp

lemma putBackupCodes_lookup:
  "putBackupCodes now codes store c =
     (if c \<in> set codes then Some \<lparr>bc_created = now, bc_used = False, bc_usedAt = None\<rparr>
      else store c)"
  unfolding putBackupCodes_def
  by (induction codes arbitrary: store) auto

text \<open>A code that the manager has generated and stored is found under its own name, and
  its first use succeeds.\<close>

lemma generated_code_usable:
  assumes "st_db (mgr_storage m)"
    and "CreditManager_generateBackupCodes rng now True m = (Inr codes, m')"
    and "c \<in> set codes"
  shows "fst (CreditStorage_useBackupCode now2 True True (mgr_storage m') c) = Inr True"
proof -
  have codes: "codes = generateBackupCodes rng 5"
    using assms(2)
    by (auto simp: CreditManager_generateBackupCodes_def Let_def split: prod.splits sum.splits)
  have "list_all matches_backup_pattern codes"
    unfolding codes generateBackupCodes_def by (rule loop_matches) simp
  then have up: "toUpperCase c = c" using assms(3) by (simp add: list_all_iff toUpperCase_fixed)
  have ne: "codes \<noteq> []" using assms(3) by auto
  have st: "mgr_storage m' =
              (mgr_storage m)\<lparr>st_backupCodes :=
                                 putBackupCodes now codes (st_backupCodes (mgr_storage m))\<rparr>"
    using assms(1,2) ne codes
    by (auto simp: CreditManager_generateBackupCodes_def saveBackupCodes_def Let_def
             split: if_splits)
  show ?thesis
    using assms(1,3) up
    by (simp add: st CreditStorage_useBackupCode_def putBackupCodes_lookup)
qed

text \<open>
  Claim C7. With the database open and the requests served, \<^verbatim>\<open>useBackupCode(code)\<close> looks
  the upper-cased code up. On a stored, unused code it returns \<^verbatim>\<open>true\<close> and stores the
  record with \<^verbatim>\<open>used\<close> set and \<^verbatim>\<open>usedAt\<close> the current time; a further attempt on the same
  code returns \<^verbatim>\<open>false\<close> and leaves the store as it is, as does every attempt on a used
  code and on a code that is not stored. None of these attempts throws.
\<close>

theorem useBackupCode_once:
  assumes "st_db st"
  shows "(st_backupCodes st (toUpperCase code) = Some r \<and> \<not> bc_used r \<longrightarrow>
            CreditStorage_useBackupCode now True True st code =
              (Inr True,
               st\<lparr>st_backupCodes := (st_backupCodes st)
                    (toUpperCase code \<mapsto> r\<lparr>bc_used := True, bc_usedAt := Some now\<rparr>)\<rparr>) \<and>
            CreditStorage_useBackupCode now2 True put_ok2
                (snd (CreditStorage_useBackupCode now True True st code)) code =
              (Inr False, snd (CreditStorage_useBackupCode now True True st code))) \<and>
         (st_backupCodes st (toUpperCase code) = Some r \<and> bc_used r \<longrightarrow>
            CreditStorage_useBackupCode now True put_ok st code = (Inr False, st)) \<and>
         (st_backupCodes st (toUpperCase code) = None \<longrightarrow>
            CreditStorage_useBackupCode now True put_ok st code = (Inr False, st))"
  using assms by (simp add: CreditStorage_useBackupCode_def)

theorem useBackupCode_once_witness:
  "st_db storage_with_code \<and>
   st_backupCodes storage_with_code (toUpperCase ''abcdef0123456789'')
     = Some \<lparr>bc_created = 1000, bc_used = False, bc_usedAt = None\<rparr> \<and>
   fst (CreditStorage_useBackupCode 2000 True True storage_with_code ''abcdef0123456789'')
     = Inr True \<and>
   CreditStorage_useBackupCode 3000 True True
       (snd (CreditStorage_useBackupCode 2000 True True storage_with_code ''abcdef0123456789''))
       ''abcdef0123456789''
     = (Inr False,
        snd (CreditStorage_useBackupCode 2000 True True storage_with_code ''abcdef0123456789'')) \<and>
   st_backupCodes storage_with_code (toUpperCase ''0000000000000000'') = None \<and>
   CreditStorage_useBackupCode 2000 True True storage_with_code ''0000000000000000''
     = (Inr False, storage_with_code)"
proof -
  have a: "st_db storage_with_code" by (simp add: storage_with_code_def)
  have b: "st_backupCodes storage_with_code (toUpperCase ''abcdef0123456789'')
             = Some \<lparr>bc_created = 1000, bc_used = False, bc_usedAt = None\<rparr>"
    by (simp add: storage_with_code_def toUpperCase_sample)
  have c: "st_backupCodes storage_with_code (toUpperCase ''0000000000000000'') = None"
    by (simp add: storage_with_code_def toUpperCase_zeros)
  note first = useBackupCode_once [OF a, of "''abcdef0123456789''"
         "\<lparr>bc_created = 1000, bc_used = False, bc_usedAt = None\<rparr>" 2000 3000 True True]
  note other = useBackupCode_once [OF a, of "''0000000000000000''"
         "\<lparr>bc_created = 1000, bc_used = False, bc_usedAt = None\<rparr>" 2000 3000 True True]
  have u: "\<not> bc_used \<lparr>bc_created = 1000, bc_used = False, bc_usedAt = None\<rparr>" by simp
  have p1: "fst (CreditStorage_useBackupCode 2000 True True storage_with_code
                   ''abcdef0123456789'') = Inr True"
    using first b by simp
  have p2: "CreditStorage_useBackupCode 3000 True True
       (snd (CreditStorage_useBackupCode 2000 True True storage_with_code ''abcdef0123456789''))
       ''abcdef0123456789''
     = (Inr False,
        snd (CreditStorage_useBackupCode 2000 True True storage_with_code ''abcdef0123456789''))"
    using first b u by blast
  have p3: "CreditStorage_useBackupCode 2000 True True storage_with_code ''0000000000000000''
     = (Inr False, storage_with_code)"
    using other c by blast
  show ?thesis using a b c p1 p2 p3 by blast
qed

text \<open>
  Claim C9. For every count \<open>n\<close>, \<^verbatim>\<open>generateBackupCodes(n)\<close> of the crypto provider returns
  \<open>n\<close> codes (none for a negative \<open>n\<close>), each of 16 characters from \<open>A-F0-9\<close>; the
  manager's \<^verbatim>\<open>generateBackupCodes()\<close>, with the database open and the codes stored,
  returns 5 such codes.
\<close>

theorem generateBackupCodes_format:
  "length (generateBackupCodes rng n) = nat n \<and>
   list_all matches_backup_pattern (generateBackupCodes rng n) \<and>
   (st_db (mgr_storage m) \<and> put_ok \<longrightarrow>
      (\<exists>codes m'. CreditManager_generateBackupCodes rng now put_ok m = (Inr codes, m')
                 \<and> length codes = 5 \<and> list_all matches_backup_pattern codes))"
proof (intro conjI impI)
  show "length (generateBackupCodes rng n) = nat n"
    by (simp add: generateBackupCodes_def loop_length)
  show "list_all matches_backup_pattern (generateBackupCodes rng n)"
    unfolding generateBackupCodes_def by (rule loop_matches) simp
next
  assume ok: "st_db (mgr_storage m) \<and> put_ok"
  have l5: "length (generateBackupCodes rng 5) = 5"
    by (simp add: generateBackupCodes_def loop_length)
  have m5: "list_all matches_backup_pattern (generateBackupCodes rng 5)"
    unfolding generateBackupCodes_def by (rule loop_matches) simp
  have ne: "generateBackupCodes rng 5 \<noteq> []" using l5 by auto
  show "\<exists>codes m'. CreditManager_generateBackupCodes rng now put_ok m = (Inr codes, m')
                 \<and> length codes = 5 \<and> list_all matches_backup_pattern codes"
    using ok l5 m5 ne
    by (simp add: CreditManager_generateBackupCodes_def saveBackupCodes_def Let_def)
qed

theorem generateBackupCodes_format_witness:
  "length (generateBackupCodes (\<lambda>i. (0, 0, 0)) 3) = 3 \<and>
   list_all matches_backup_pattern (generateBackupCodes (\<lambda>i. (0, 0, 0)) 3) \<and>
   st_db (mgr_storage (opened_manager 0)) \<and>
   (\<exists>codes m'. CreditManager_generateBackupCodes (\<lambda>i. (0, 0, 0)) 0 True (opened_manager 0)
                 = (Inr codes, m')
              \<and> length codes = 5 \<and> list_all matches_backup_pattern codes)"
proof -
  have h: "st_db (mgr_storage (opened_manager 0))"
    by (simp add: opened_manager_def)
  show ?thesis
    using generateBackupCodes_format [of "\<lambda>i. (0, 0, 0)" 3 "opened_manager 0" True 0] h
    by simp
qed

subsection \<open>Integrity hashing\<close>

text \<open>
  Claim C10. \<^verbatim>\<open>createIntegrityHash\<close> and \<^verbatim>\<open>verifyIntegrity\<close> do not read the record's
  \<^verbatim>\<open>deviceFingerprint\<close> field: two records that differ in that field only have the same
  digest and the same verification result, because the digest is computed over the
  balance, the timestamp and the fingerprint of the live device.
\<close>

theorem integrity_ignores_stored_fingerprint:
  "createIntegrityHash P sec (d\<lparr>cd_deviceFingerprint := x\<rparr>) = createIntegrityHash P sec d \<and>
   verifyIntegrity P sec (d\<lparr>cd_deviceFingerprint := x\<rparr>) h = verifyIntegrity P sec d h \<and>
   fst (createIntegrityHash P sec d) =
     simpleHash P (JSON_stringify_integrity (cd_balance d)
                     (fst (generateDeviceFingerprint P sec)) (cd_timestamp d))"
  by (simp add: createIntegrityHash_def verifyIntegrity_def split: prod.splits)

theorem integrity_ignores_stored_fingerprint_witness:
  "createIntegrityHash demo_platform new_CreditSecurity
       (unsigned_record\<lparr>cd_deviceFingerprint := Some ''another device''\<rparr>)
     = createIntegrityHash demo_platform new_CreditSecurity unsigned_record \<and>
   verifyIntegrity demo_platform new_CreditSecurity
       (unsigned_record\<lparr>cd_deviceFingerprint := Some ''another device''\<rparr>) (Some ''0f'')
     = verifyIntegrity demo_platform new_CreditSecurity unsigned_record (Some ''0f'')"
  using integrity_ignores_stored_fingerprint
          [where P = demo_platform and sec = new_CreditSecurity and d = unsigned_record
             and x = "Some ''another device''" and h = "Some ''0f''"]
  by simp

end
